theory Spec2Isabelle
  imports Main "HOL-Library.Sublist"
begin

section \<open>Values and records of the plugin\<close>

text \<open>
  The plugin is JavaScript, so a field read from a linter message is not typed.  The fields
  whose dynamic type matters to the code are kept as primitive JavaScript values: the
  severity of a message (a number in the older source file, a string in \<^verbatim>\<open>src/index.js\<close>)
  and the options, which the code only tests for truthiness.  Numbers are integers here;
  \<^verbatim>\<open>NaN\<close>, fractions and the negative zero are not represented.
\<close>

datatype jsprim = JUndefined | JNull | JBool bool | JNum int | JStr string

text \<open>
  A value read out of an object literal is either a primitive or a member that the literal
  inherits from \<^verbatim>\<open>Object.prototype\<close> (a function or an object, kept opaque under its name).
\<close>

datatype jsval = Prim jsprim | ProtoMember string

text \<open>JavaScript's truthiness test, as used by \<^verbatim>\<open>||\<close> and \<^verbatim>\<open>if\<close>.\<close>

fun truthy :: "jsprim \<Rightarrow> bool" where
  "truthy JUndefined = False"
| "truthy JNull = False"
| "truthy (JBool b) = b"
| "truthy (JNum n) = (n \<noteq> 0)"
| "truthy (JStr s) = (s \<noteq> [])"

text \<open>A Stylelint message, as the code reads it: \<^verbatim>\<open>line\<close>, \<^verbatim>\<open>column\<close>, \<^verbatim>\<open>severity\<close>,
  \<^verbatim>\<open>text\<close> and \<^verbatim>\<open>plugin\<close>.\<close>

record message =
  line :: int
  column :: int
  severity :: jsprim
  "text" :: string
  plugin :: string

text \<open>A Checkstyle message, as \<^verbatim>\<open>stylelintToCheckstyleMessageAdapter\<close> builds it.\<close>

record checkstyle_message =
  line :: int
  column :: int
  severity :: jsval
  message :: string

text \<open>
  Both result shapes carry their messages under the property \<^verbatim>\<open>messages\<close>.  A function that
  only reads \<^verbatim>\<open>result.messages\<close> is typed over every extension of the one-field record.
\<close>

record 'm has_messages =
  messages :: "'m list"

text \<open>A Stylelint result: \<^verbatim>\<open>result.messages\<close> and \<^verbatim>\<open>result.opts.from\<close>.\<close>

record result = "message has_messages" +
  opts_from :: string

text \<open>A Checkstyle result: \<^verbatim>\<open>filename\<close> and \<^verbatim>\<open>messages\<close>.\<close>

record checkstyle_result = "checkstyle_message has_messages" +
  filename :: string

section \<open>Numbers in template strings\<close>

text \<open>
  A template string \<^verbatim>\<open>`${n}`\<close> prints an integer in decimal.  (JavaScript switches to
  exponent notation from \<open>10\<^sup>2\<^sup>1\<close> on; no array length or line number gets there.)
\<close>

definition digit_char :: "nat \<Rightarrow> char" where
  "digit_char d = ''0123456789'' ! (d mod 10)"

function show_nat :: "nat \<Rightarrow> string" where
  "show_nat n = (if n < 10 then [digit_char n] else show_nat (n div 10) @ [digit_char (n mod 10)])"
  by pat_completeness auto
termination
  by (relation "measure id") auto

declare show_nat.simps [simp del]

definition show_int :: "int \<Rightarrow> string" where
  "show_int i = (if i < 0 then CHR ''-'' # show_nat (nat (- i)) else show_nat (nat i))"

text \<open>Reading a decimal numeral back, to say what \<open>show_nat\<close> prints.\<close>

definition digit_val :: "char \<Rightarrow> nat" where
  "digit_val c = of_char c - 48"

definition read_nat :: "string \<Rightarrow> nat" where
  "read_nat s = foldl (\<lambda>a c. 10 * a + digit_val c) 0 s"

section \<open>Checkstyle reporter: the adapters of \<^verbatim>\<open>src/index.js\<close>\<close>

definition stylelintToCheckstyleMessageAdapter :: "message \<Rightarrow> checkstyle_message" where
  "stylelintToCheckstyleMessageAdapter m =
     \<lparr> line = message.line m,
       column = message.column m,
       severity = Prim (message.severity m),
       message = text m \<rparr>"

definition stylelintToCheckstyleMessageListAdapter :: "message list \<Rightarrow> checkstyle_message list" where
  "stylelintToCheckstyleMessageListAdapter messageList =
     map stylelintToCheckstyleMessageAdapter
       (filter (\<lambda>m. plugin m = ''stylelint'') messageList)"

definition stylelineToCheckstyleResultAdapter :: "result \<Rightarrow> checkstyle_result" where
  "stylelineToCheckstyleResultAdapter r =
     \<lparr> messages = stylelintToCheckstyleMessageListAdapter (messages r),
       filename = opts_from r \<rparr>"

definition stylelintToCheckstyleResultListAdapter :: "result list \<Rightarrow> checkstyle_result list" where
  "stylelintToCheckstyleResultListAdapter resultList =
     map stylelineToCheckstyleResultAdapter
       (filter (\<lambda>r. length (messages r) > 0) resultList)"

section \<open>Fail-after-all-errors reporter\<close>

text \<open>
  \<^verbatim>\<open>resultList.reduce((resultMemo, result) => resultMemo + result.messages.length, 0)\<close>:
  a left fold from 0.  The accumulator is a JavaScript number, an integer here.
\<close>

definition countIssuesInResultList :: "('m, 'z) has_messages_scheme list \<Rightarrow> int" where
  "countIssuesInResultList resultList =
     foldl (\<lambda>resultMemo r. resultMemo + int (length (messages r))) 0 resultList"

datatype error = Error string

text \<open>The reporter returns nothing or throws: \<open>Inl\<close> is the thrown error.\<close>

definition failAfterAllErrorsReporter :: "('m, 'z) has_messages_scheme list \<Rightarrow> error + unit" where
  "failAfterAllErrorsReporter resultList =
     (let errorCount = countIssuesInResultList resultList in
      if errorCount > 0 then
        (let errorNotice = (if errorCount = 1 then ''issue has'' else ''issues have'') in
         Inl (Error (show_int errorCount @ '' linting '' @ errorNotice @ '' been found.'')))
      else Inr ())"

section \<open>The adapters of the older source file\<close>

text \<open>
  The second source file (the one without reporters) has the same four adapters, but its
  message adapter reads the severity through the table
  \<^verbatim>\<open>const severityTypeMapping = {1: 'warning', 2: 'error'}\<close>.
  A property read \<^verbatim>\<open>severityTypeMapping[message.severity]\<close> turns the key into a string, looks
  among the own properties \<^verbatim>\<open>'1'\<close> and \<^verbatim>\<open>'2'\<close>, then along the prototype chain, and
  yields \<^verbatim>\<open>undefined\<close> when the key is found nowhere.
\<close>

definition toPropertyKey :: "jsprim \<Rightarrow> string" where
  "toPropertyKey v =
     (case v of
        JUndefined \<Rightarrow> ''undefined''
      | JNull \<Rightarrow> ''null''
      | JBool b \<Rightarrow> (if b then ''true'' else ''false'')
      | JNum n \<Rightarrow> show_int n
      | JStr s \<Rightarrow> s)"

definition objectPrototypeMembers :: "string list" where
  "objectPrototypeMembers =
     [''constructor'', ''hasOwnProperty'', ''isPrototypeOf'', ''propertyIsEnumerable'',
      ''toLocaleString'', ''toString'', ''valueOf'', ''__proto__'',
      ''__defineGetter__'', ''__defineSetter__'', ''__lookupGetter__'', ''__lookupSetter__'']"

definition severityTypeMapping_own :: "(string \<times> string) list" where
  "severityTypeMapping_own = [(''1'', ''warning''), (''2'', ''error'')]"

definition severityTypeMapping :: "jsprim \<Rightarrow> jsval" where
  "severityTypeMapping key =
     (case map_of severityTypeMapping_own (toPropertyKey key) of
        Some s \<Rightarrow> Prim (JStr s)
      | None \<Rightarrow>
          if toPropertyKey key \<in> set objectPrototypeMembers
          then ProtoMember (toPropertyKey key)
          else Prim JUndefined)"

definition stylelintToCheckstyleMessageAdapter_part_001 :: "message \<Rightarrow> checkstyle_message" where
  "stylelintToCheckstyleMessageAdapter_part_001 m =
     \<lparr> line = message.line m,
       column = message.column m,
       severity = severityTypeMapping (message.severity m),
       message = text m \<rparr>"

definition stylelintToCheckstyleMessageListAdapter_part_001 ::
    "message list \<Rightarrow> checkstyle_message list" where
  "stylelintToCheckstyleMessageListAdapter_part_001 messageList =
     map stylelintToCheckstyleMessageAdapter_part_001
       (filter (\<lambda>m. plugin m = ''stylelint'') messageList)"

definition stylelineToCheckstyleResultAdapter_part_001 :: "result \<Rightarrow> checkstyle_result" where
  "stylelineToCheckstyleResultAdapter_part_001 r =
     \<lparr> messages = stylelintToCheckstyleMessageListAdapter_part_001 (messages r),
       filename = opts_from r \<rparr>"

definition stylelintToCheckstyleResultListAdapter_part_001 ::
    "result list \<Rightarrow> checkstyle_result list" where
  "stylelintToCheckstyleResultListAdapter_part_001 resultList =
     map stylelineToCheckstyleResultAdapter_part_001
       (filter (\<lambda>r. length (messages r) > 0) resultList)"

section \<open>Console reporter\<close>

text \<open>
  \<^verbatim>\<open>gulpUtil.colors\<close> and \<^verbatim>\<open>gulpUtil.log\<close> belong to another package.  The four colour
  functions are parameters; the console is the list of the strings handed to
  \<^verbatim>\<open>gulpUtil.log\<close>, oldest first, and every reporter returns the console it leaves.
\<close>

record colors =
  gray :: "string \<Rightarrow> string"
  red :: "string \<Rightarrow> string"
  yellow :: "string \<Rightarrow> string"
  underline :: "string \<Rightarrow> string"

definition consoleMessageReporter :: "colors \<Rightarrow> message \<Rightarrow> string list \<Rightarrow> string list" where
  "consoleMessageReporter c m con =
     (let errorCoords = gray c (show_int (message.line m) @ '':'' @ show_int (message.column m));
          errorNotice = (if message.severity m = JStr ''error''
                         then red c ''error'' else yellow c ''warning'')
      in con @ [errorCoords @ '' '' @ errorNotice @ '' '' @ text m])"

definition consoleResultReporter :: "colors \<Rightarrow> result \<Rightarrow> string list \<Rightarrow> string list" where
  "consoleResultReporter c r con =
     foldl (\<lambda>con' m. consoleMessageReporter c m con')
       (con @ [underline c (opts_from r)])
       (filter (\<lambda>m. plugin m = ''stylelint'') (messages r))"

definition consoleResultListReporter ::
    "colors \<Rightarrow> result list \<Rightarrow> string list \<Rightarrow> result list \<times> string list" where
  "consoleResultListReporter c resultList con =
     (resultList,
      foldl (\<lambda>con' r. consoleResultReporter c r con') con
        (filter (\<lambda>r. length (messages r) > 0) resultList))"

section \<open>The stream of \<^verbatim>\<open>gulpStylelintCheckstyle\<close>\<close>

definition pluginName :: string where
  "pluginName = ''gulp-stylelint-checkstyle''"

text \<open>\<^verbatim>\<open>new gulpUtil.PluginError(plugin, x)\<close>, with \<open>x\<close> a message or a caught error.\<close>

datatype cause = Message string | Caught error

datatype plugin_error = PluginError string cause

text \<open>A piped (Vinyl) file: its contents are null, a stream, or a buffer.\<close>

datatype contents = NullContents | StreamContents | BufferContents string

record vinyl =
  path :: string
  contents :: contents

definition isNull :: "vinyl \<Rightarrow> bool" where
  "isNull f = (contents f = NullContents)"

definition isStream :: "vinyl \<Rightarrow> bool" where
  "isStream f = (contents f = StreamContents)"

text \<open>\<^verbatim>\<open>file.contents.toString()\<close>, read only when the contents are a buffer.\<close>

fun contents_toString :: "contents \<Rightarrow> string" where
  "contents_toString (BufferContents s) = s"
| "contents_toString _ = []"

record 'cfg options =
  stylelint :: 'cfg
  "output" :: jsprim
  reportToConsole :: jsprim
  failAfterAllErrors :: jsprim

text \<open>
  What the plugin calls and does not define: the working directory of the process,
  \<^verbatim>\<open>path.resolve\<close> (which throws on an argument that is not a string) and
  \<^verbatim>\<open>path.dirname\<close>, the PostCSS processor built from the Stylelint configuration (given by
  the outcome of \<^verbatim>\<open>process(contents, {from: path})\<close>: a result, or the error the promise
  is rejected with), the Checkstyle formatter, and the two file-system calls (given by
  the error they fail with, if any).
\<close>

record 'cfg env =
  cwd :: string
  path_resolve :: "string \<Rightarrow> jsprim \<Rightarrow> error + string"
  path_dirname :: "string \<Rightarrow> string"
  postcss_stylelint :: "'cfg \<Rightarrow> string \<Rightarrow> string \<Rightarrow> error + result"
  checkstyleFormatter :: "checkstyle_result list \<Rightarrow> string"
  mkdirp :: "string \<Rightarrow> error option"
  writeFile :: "string \<Rightarrow> string \<Rightarrow> error option"
  gulpUtil_colors :: colors

text \<open>The constants of the closure.  A promise of the list is kept as what it settles to.\<close>

record stream_state =
  promiseList :: "(error + result) list"
  outputFile :: string
  outputDir :: string
  postcssProcessor :: "string \<Rightarrow> string \<Rightarrow> error + result"

text \<open>\<^verbatim>\<open>a || b\<close> on primitives.\<close>

definition js_or :: "jsprim \<Rightarrow> jsprim \<Rightarrow> jsprim" where
  "js_or a b = (if truthy a then a else b)"

definition gulpStylelintCheckstyle :: "'cfg env \<Rightarrow> 'cfg options \<Rightarrow> error + stream_state" where
  "gulpStylelintCheckstyle e opts =
     (case path_resolve e (cwd e) (js_or (output opts) (JStr ''checkstyle.xml'')) of
        Inl err \<Rightarrow> Inl err
      | Inr file \<Rightarrow>
          Inr \<lparr> promiseList = [],
                outputFile = file,
                outputDir = path_dirname e file,
                postcssProcessor = postcss_stylelint e (stylelint opts) \<rparr>)"

text \<open>The call of the \<^verbatim>\<open>done\<close> callback: \<^verbatim>\<open>done(null, file)\<close> or \<^verbatim>\<open>done(error)\<close>.\<close>

datatype done_call = Pass vinyl | Fail plugin_error

definition onFile :: "stream_state \<Rightarrow> vinyl \<Rightarrow> stream_state \<times> done_call" where
  "onFile st f =
     (if isNull f then (st, Pass f)
      else if isStream f then
        (st, Fail (PluginError pluginName (Message ''Streaming not supported'')))
      else
        (let fileContents = contents_toString (contents f);
             promise = postcssProcessor st fileContents (path f)
         in (st\<lparr>promiseList := promiseList st @ [promise]\<rparr>, Pass f)))"

text \<open>The stream hands the files to \<^verbatim>\<open>onFile\<close> one after the other.\<close>

fun onFiles :: "stream_state \<Rightarrow> vinyl list \<Rightarrow> stream_state \<times> done_call list" where
  "onFiles st [] = (st, [])"
| "onFiles st (f # fs) =
     (case onFile st f of
        (st', d) \<Rightarrow> (case onFiles st' fs of (st'', ds) \<Rightarrow> (st'', d # ds)))"

section \<open>The end of the stream\<close>

text \<open>
  What a run does to the outside: the console, the calls of \<^verbatim>\<open>mkdirp\<close>,
  \<^verbatim>\<open>fsp.writeFile\<close>, \<^verbatim>\<open>this.emit('error', _)\<close> and \<^verbatim>\<open>done()\<close> in the order they are made,
  and the promise chains of \<^verbatim>\<open>checkstyleReporter\<close> that have been started and have not run
  yet (each one kept as the results it was started on).  A rejection that nothing handles
  is an event of its own.
\<close>

datatype event = Mkdirp string | WriteFile string string | Emit plugin_error | Done
  | UnhandledRejection error

record world =
  console :: "string list"
  trace :: "event list"
  pending :: "result list list"

definition log_event :: "event \<Rightarrow> world \<Rightarrow> world" where
  "log_event ev w = w\<lparr>trace := trace w @ [ev]\<rparr>"

text \<open>\<^verbatim>\<open>mkdirp(outputDir).then(() => fsp.writeFile(outputFile, xmlString))\<close>.\<close>

definition outputWriter :: "'cfg env \<Rightarrow> stream_state \<Rightarrow> string \<Rightarrow> world \<Rightarrow> error option \<times> world" where
  "outputWriter e st xmlString w =
     (let w1 = log_event (Mkdirp (outputDir st)) w in
      case mkdirp e (outputDir st) of
        Some err \<Rightarrow> (Some err, w1)
      | None \<Rightarrow> (writeFile e (outputFile st) xmlString,
                 log_event (WriteFile (outputFile st) xmlString) w1))"

text \<open>
  \<^verbatim>\<open>checkstyleReporter(results)\<close> returns at once with a promise; the three \<^verbatim>\<open>then\<close> steps
  run later.  The call only starts the chain; \<open>checkstyleReporter_chain\<close> is the chain.
\<close>

definition checkstyleReporter :: "result list \<Rightarrow> world \<Rightarrow> world" where
  "checkstyleReporter results w = w\<lparr>pending := pending w @ [results]\<rparr>"

definition checkstyleReporter_chain ::
    "'cfg env \<Rightarrow> stream_state \<Rightarrow> result list \<Rightarrow> world \<Rightarrow> error option \<times> world" where
  "checkstyleReporter_chain e st results w =
     outputWriter e st (checkstyleFormatter e (stylelintToCheckstyleResultListAdapter results)) w"

text \<open>The reporters that \<^verbatim>\<open>provideResultsToReporters\<close> collects in its array.\<close>

datatype reporter = CheckstyleReporter | ConsoleResultListReporter | FailAfterAllErrorsReporter

text \<open>What a reporter returns: the promise of a chain, or a value that is no promise.\<close>

datatype returned = Promise "result list" | Value

text \<open>\<^verbatim>\<open>reporter(results)\<close>; \<open>Inl\<close> is an error thrown by the call.\<close>

fun call_reporter ::
    "'cfg env \<Rightarrow> reporter \<Rightarrow> result list \<Rightarrow> world \<Rightarrow> (error + returned) \<times> world" where
  "call_reporter e CheckstyleReporter results w =
     (Inr (Promise results), checkstyleReporter results w)"
| "call_reporter e ConsoleResultListReporter results w =
     (case consoleResultListReporter (gulpUtil_colors e) results (console w) of
        (_, con) \<Rightarrow> (Inr Value, w\<lparr>console := con\<rparr>))"
| "call_reporter e FailAfterAllErrorsReporter results w =
     (case failAfterAllErrorsReporter results of
        Inl err \<Rightarrow> (Inl err, w)
      | Inr _ \<Rightarrow> (Inr Value, w))"

text \<open>
  \<^verbatim>\<open>reporters.map(reporter => reporter(results))\<close>: the calls are made in the order of the
  array, and an error thrown by one of them ends the \<^verbatim>\<open>map\<close>.
\<close>

fun map_reporters ::
    "'cfg env \<Rightarrow> reporter list \<Rightarrow> result list \<Rightarrow> world \<Rightarrow> (error + returned list) \<times> world" where
  "map_reporters e [] results w = (Inr [], w)"
| "map_reporters e (r # rs) results w =
     (case call_reporter e r results w of
        (Inl err, w') \<Rightarrow> (Inl err, w')
      | (Inr v, w') \<Rightarrow>
          (case map_reporters e rs results w' of
             (Inl err, w'') \<Rightarrow> (Inl err, w'')
           | (Inr vs, w'') \<Rightarrow> (Inr (v # vs), w'')))"

definition selected_reporters :: "'cfg options \<Rightarrow> reporter list" where
  "selected_reporters opts =
     [CheckstyleReporter]
     @ (if truthy (reportToConsole opts) then [ConsoleResultListReporter] else [])
     @ (if truthy (failAfterAllErrors opts) then [FailAfterAllErrorsReporter] else [])"

text \<open>
  \<open>Inr vs\<close> is the array handed to \<^verbatim>\<open>Promise.all\<close>; \<open>Inl\<close> is an error thrown before
  \<^verbatim>\<open>Promise.all\<close> is reached.
\<close>

definition provideResultsToReporters ::
    "'cfg env \<Rightarrow> 'cfg options \<Rightarrow> result list \<Rightarrow> world \<Rightarrow> (error + returned list) \<times> world" where
  "provideResultsToReporters e opts results w =
     map_reporters e (selected_reporters opts) results w"

text \<open>
  \<^verbatim>\<open>Promise.all\<close> over promises that are already kept as what they settle to: the list of
  the values, or the error of the first rejected promise of the list.
\<close>

fun promise_all :: "(error + 'a) list \<Rightarrow> error + 'a list" where
  "promise_all [] = Inr []"
| "promise_all (Inl err # ps) = Inl err"
| "promise_all (Inr x # ps) =
     (case promise_all ps of Inl err \<Rightarrow> Inl err | Inr xs \<Rightarrow> Inr (x # xs))"

text \<open>
  Waiting for \<^verbatim>\<open>Promise.all(vs)\<close>: the started chains among \<open>vs\<close> run, in the order of the
  array, and leave the pending ones; the first rejection ends the wait.
\<close>

fun await_all ::
    "'cfg env \<Rightarrow> stream_state \<Rightarrow> returned list \<Rightarrow> world \<Rightarrow> error option \<times> world" where
  "await_all e st [] w = (None, w)"
| "await_all e st (Value # vs) w = await_all e st vs w"
| "await_all e st (Promise results # vs) w =
     (case checkstyleReporter_chain e st results (w\<lparr>pending := remove1 results (pending w)\<rparr>) of
        (Some err, w') \<Rightarrow> (Some err, w')
      | (None, w') \<Rightarrow> await_all e st vs w')"

text \<open>The \<^verbatim>\<open>catch\<close> handler: the emit (whose own failure is swallowed), then \<^verbatim>\<open>done()\<close>.\<close>

definition on_catch :: "error \<Rightarrow> world \<Rightarrow> world" where
  "on_catch err w = log_event Done (log_event (Emit (PluginError pluginName (Caught err))) w)"

definition onStreamEnd :: "'cfg env \<Rightarrow> 'cfg options \<Rightarrow> stream_state \<Rightarrow> world \<Rightarrow> world" where
  "onStreamEnd e opts st w =
     (case promise_all (promiseList st) of
        Inl err \<Rightarrow> on_catch err w
      | Inr results \<Rightarrow>
          (case provideResultsToReporters e opts results w of
             (Inl err, w1) \<Rightarrow> on_catch err w1
           | (Inr vs, w1) \<Rightarrow>
               (case await_all e st vs w1 of
                  (Some err, w2) \<Rightarrow> on_catch err w2
                | (None, w2) \<Rightarrow> log_event Done w2)))"

text \<open>
  After \<^verbatim>\<open>onStreamEnd\<close> the event loop goes on: the chains that were started and that
  nothing waited for run now, and nothing handles their rejection.
\<close>

fun run_pending :: "'cfg env \<Rightarrow> stream_state \<Rightarrow> result list list \<Rightarrow> world \<Rightarrow> world" where
  "run_pending e st [] w = w"
| "run_pending e st (results # rest) w =
     (case checkstyleReporter_chain e st results w of
        (Some err, w') \<Rightarrow> run_pending e st rest (log_event (UnhandledRejection err) w')
      | (None, w') \<Rightarrow> run_pending e st rest w')"

definition event_loop_rest :: "'cfg env \<Rightarrow> stream_state \<Rightarrow> world \<Rightarrow> world" where
  "event_loop_rest e st w = run_pending e st (pending w) (w\<lparr>pending := []\<rparr>)"

section \<open>Example inputs\<close>

text \<open>Concrete messages, results, options and collaborators, for the evaluations below.\<close>

definition ex_warning :: message where
  "ex_warning = \<lparr> message.line = 3, column = 14, severity = JStr ''warning'',
                  text = ''Expected indentation of 2 spaces'', plugin = ''stylelint'' \<rparr>"

definition ex_error :: message where
  "ex_error = \<lparr> message.line = 7, column = 1, severity = JStr ''error'',
                text = ''Unexpected empty block'', plugin = ''stylelint'' \<rparr>"

definition ex_foreign :: message where
  "ex_foreign = \<lparr> message.line = 1, column = 1, severity = JStr ''warning'',
                  text = ''Invalid component name'', plugin = ''postcss-bem-linter'' \<rparr>"

definition ex_result :: result where
  "ex_result = \<lparr> messages = [ex_warning], opts_from = ''a.css'' \<rparr>"

definition ex_result2 :: result where
  "ex_result2 = \<lparr> messages = [ex_foreign, ex_error, ex_warning], opts_from = ''b.css'' \<rparr>"

definition ex_foreign_only :: result where
  "ex_foreign_only = \<lparr> messages = [ex_foreign], opts_from = ''c.css'' \<rparr>"

definition ex_clean :: result where
  "ex_clean = \<lparr> messages = [], opts_from = ''d.css'' \<rparr>"

definition ex_colors :: colors where
  "ex_colors = \<lparr> gray = (\<lambda>s. s), red = (\<lambda>s. s), yellow = (\<lambda>s. s), underline = (\<lambda>s. s) \<rparr>"

definition ex_resolve :: "string \<Rightarrow> jsprim \<Rightarrow> error + string" where
  "ex_resolve dir p =
     (case p of JStr s \<Rightarrow> Inr (dir @ ''/'' @ s)
      | _ \<Rightarrow> Inl (Error ''Path must be a string''))"

definition ex_env :: "unit env" where
  "ex_env = \<lparr> cwd = ''/work'',
              path_resolve = ex_resolve,
              path_dirname = (\<lambda>p. ''/work''),
              postcss_stylelint = (\<lambda>cfg css from. Inr \<lparr> messages = [], opts_from = from \<rparr>),
              checkstyleFormatter = (\<lambda>rs. ''<checkstyle/>''),
              mkdirp = (\<lambda>d. None),
              writeFile = (\<lambda>f x. None),
              gulpUtil_colors = ex_colors \<rparr>"

definition ex_options :: "unit options" where
  "ex_options = \<lparr> stylelint = (), output = JUndefined,
                  reportToConsole = JBool True, failAfterAllErrors = JBool True \<rparr>"

definition ex_state :: stream_state where
  "ex_state = \<lparr> promiseList = [Inr ex_result],
                outputFile = ''/work/checkstyle.xml'',
                outputDir = ''/work'',
                postcssProcessor = postcss_stylelint ex_env () \<rparr>"

definition ex_buffer :: vinyl where
  "ex_buffer = \<lparr> path = ''a.css'', contents = BufferContents ''a { color: red }'' \<rparr>"

definition ex_streaming :: vinyl where
  "ex_streaming = \<lparr> path = ''s.css'', contents = StreamContents \<rparr>"

definition ex_world :: world where
  "ex_world = \<lparr> console = [], trace = [], pending = [] \<rparr>"

section \<open>Properties of the issue counter\<close>

lemma foldl_count_shift:
  "foldl (\<lambda>resultMemo r. resultMemo + int (length (messages r))) a rs =
   a + foldl (\<lambda>resultMemo r. resultMemo + int (length (messages r))) 0 rs"
proof (induction rs arbitrary: a)
  case Nil
  show ?case by simp
next
  case (Cons r rs)
  have "foldl (\<lambda>resultMemo r. resultMemo + int (length (messages r))) a (r # rs) =
        foldl (\<lambda>resultMemo r. resultMemo + int (length (messages r))) (a + int (length (messages r))) rs"
    by simp
  also have "\<dots> = (a + int (length (messages r))) +
        foldl (\<lambda>resultMemo r. resultMemo + int (length (messages r))) 0 rs"
    by (rule Cons.IH)
  also have "\<dots> = a + foldl (\<lambda>resultMemo r. resultMemo + int (length (messages r)))
        (0 + int (length (messages r))) rs"
    using Cons.IH [of "0 + int (length (messages r))"] by simp
  finally show ?case by simp
qed

lemma count_Nil: "countIssuesInResultList [] = 0"
  by (simp add: countIssuesInResultList_def)

lemma count_Cons:
  "countIssuesInResultList (r # rs) = int (length (messages r)) + countIssuesInResultList rs"
  unfolding countIssuesInResultList_def
  using foldl_count_shift [of "int (length (messages r))" rs] by simp

lemma count_append:
  "countIssuesInResultList (A @ B) = countIssuesInResultList A + countIssuesInResultList B"
  by (induction A) (simp_all add: count_Nil count_Cons)

lemma count_nonneg: "0 \<le> countIssuesInResultList rs"
  by (induction rs) (simp_all add: count_Nil count_Cons)

lemma count_sum_list:
  "countIssuesInResultList rs = sum_list (map (\<lambda>r. int (length (messages r))) rs)"
  by (induction rs) (simp_all add: count_Nil count_Cons)

text \<open>
  Claim C5.  The issue counter is additive: the count of two result collections put one
  after the other is the sum of their counts; the count of the empty collection is 0; and
  the count is never negative.
\<close>

theorem countIssuesInResultList_additive:
  "countIssuesInResultList (A @ B) = countIssuesInResultList A + countIssuesInResultList B
   \<and> countIssuesInResultList ([] :: ('m, 'z) has_messages_scheme list) = 0
   \<and> 0 \<le> countIssuesInResultList A"
  by (simp add: count_append count_Nil count_nonneg)

section \<open>Decimal numerals\<close>

lemma lt10_cases:
  "(d::nat) < 10 \<Longrightarrow>
   d = 0 \<or> d = 1 \<or> d = 2 \<or> d = 3 \<or> d = 4 \<or> d = 5 \<or> d = 6 \<or> d = 7 \<or> d = 8 \<or> d = 9"
  by arith

lemma digit_val_digit_char: "d < 10 \<Longrightarrow> digit_val (digit_char d) = d"
proof -
  assume "d < 10"
  then consider "d = 0" | "d = 1" | "d = 2" | "d = 3" | "d = 4"
    | "d = 5" | "d = 6" | "d = 7" | "d = 8" | "d = 9"
    using lt10_cases by blast
  then show ?thesis
    by cases (simp_all add: digit_char_def digit_val_def)
qed

lemma read_nat_snoc: "read_nat (s @ [c]) = 10 * read_nat s + digit_val c"
  by (simp add: read_nat_def)

lemma read_show_nat: "read_nat (show_nat n) = n"
proof (induction n rule: show_nat.induct)
  case (1 n)
  show ?case
  proof (cases "n < 10")
    case True
    then have "show_nat n = [digit_char n]" by (subst show_nat.simps) simp
    with True show ?thesis by (simp add: read_nat_def digit_val_digit_char)
  next
    case False
    then have s: "show_nat n = show_nat (n div 10) @ [digit_char (n mod 10)]"
      by (subst show_nat.simps) simp
    from False have ih: "read_nat (show_nat (n div 10)) = n div 10" by (rule "1.IH")
    have "digit_val (digit_char (n mod 10)) = n mod 10" by (rule digit_val_digit_char) simp
    with s ih show ?thesis by (simp add: read_nat_snoc)
  qed
qed

lemma show_int_nonneg: "0 \<le> i \<Longrightarrow> show_int i = show_nat (nat i)"
  by (simp add: show_int_def)

lemma show_int_1: "show_int 1 = ''1''"
  by (simp add: show_int_def show_nat.simps digit_char_def)

section \<open>Properties of the fail-after-all-errors reporter\<close>

lemma failAfter_unfold:
  "failAfterAllErrorsReporter rs =
     (if countIssuesInResultList rs > 0 then
        Inl (Error (show_int (countIssuesInResultList rs) @ '' linting '' @
          (if countIssuesInResultList rs = 1 then ''issue has'' else ''issues have'') @
          '' been found.''))
      else Inr ())"
  by (simp add: failAfterAllErrorsReporter_def Let_def)

text \<open>
  Claim C3.  For every result list the reporter throws exactly when the issue count is
  greater than zero.  With count 1 the message is \<^verbatim>\<open>1 linting issue has been found.\<close>; with
  a count \<open>n \<ge> 2\<close> it is \<^verbatim>\<open>n linting issues have been found.\<close>, where the numeral that
  is printed reads back as the count; with count 0 the reporter returns, and, being a
  function of the result list only, it has no effect.
\<close>

theorem failAfterAllErrorsReporter_policy:
  "((\<exists>err. failAfterAllErrorsReporter rs = Inl err) \<longleftrightarrow> 0 < countIssuesInResultList rs)
   \<and> (countIssuesInResultList rs = 1 \<longrightarrow>
        failAfterAllErrorsReporter rs = Inl (Error ''1 linting issue has been found.''))
   \<and> (2 \<le> countIssuesInResultList rs \<longrightarrow>
        failAfterAllErrorsReporter rs =
          Inl (Error (show_int (countIssuesInResultList rs) @ '' linting issues have been found.''))
        \<and> int (read_nat (show_int (countIssuesInResultList rs))) = countIssuesInResultList rs)
   \<and> (countIssuesInResultList rs = 0 \<longrightarrow> failAfterAllErrorsReporter rs = Inr ())"
proof (intro conjI impI)
  show "(\<exists>err. failAfterAllErrorsReporter rs = Inl err) \<longleftrightarrow> 0 < countIssuesInResultList rs"
    by (simp add: failAfter_unfold)
next
  assume "countIssuesInResultList rs = 1"
  then show "failAfterAllErrorsReporter rs = Inl (Error ''1 linting issue has been found.'')"
    by (simp add: failAfter_unfold show_int_1)
next
  assume "2 \<le> countIssuesInResultList rs"
  then show "failAfterAllErrorsReporter rs =
      Inl (Error (show_int (countIssuesInResultList rs) @ '' linting issues have been found.''))"
    by (simp add: failAfter_unfold)
next
  assume "2 \<le> countIssuesInResultList rs"
  then show "int (read_nat (show_int (countIssuesInResultList rs))) = countIssuesInResultList rs"
    by (simp add: show_int_nonneg read_show_nat)
next
  assume "countIssuesInResultList rs = 0"
  then show "failAfterAllErrorsReporter rs = Inr ()"
    by (simp add: failAfter_unfold)
qed

lemma ex_counts:
  "countIssuesInResultList [ex_clean] = 0"
  "countIssuesInResultList [ex_result] = 1"
  "countIssuesInResultList [ex_result, ex_clean, ex_result2] = 4"
  by (simp_all add: countIssuesInResultList_def ex_clean_def ex_result_def ex_result2_def)

lemma show_int_4: "show_int 4 = ''4''"
  by (simp add: show_int_def show_nat.simps digit_char_def)

text \<open>The three cases of C3 at result lists with 0, 1 and 4 messages.\<close>

theorem failAfterAllErrorsReporter_policy_witness:
  "countIssuesInResultList [ex_clean] = 0
   \<and> failAfterAllErrorsReporter [ex_clean] = Inr ()
   \<and> countIssuesInResultList [ex_result] = 1
   \<and> failAfterAllErrorsReporter [ex_result] = Inl (Error ''1 linting issue has been found.'')
   \<and> 2 \<le> countIssuesInResultList [ex_result, ex_clean, ex_result2]
   \<and> failAfterAllErrorsReporter [ex_result, ex_clean, ex_result2] =
       Inl (Error ''4 linting issues have been found.'')"
  using failAfterAllErrorsReporter_policy [of "[ex_clean]"]
    failAfterAllErrorsReporter_policy [of "[ex_result]"]
    failAfterAllErrorsReporter_policy [of "[ex_result, ex_clean, ex_result2]"]
  by (simp add: ex_counts show_int_4)

text \<open>
  Claim C8.  The issue counter takes either result shape: on Stylelint results, on
  Checkstyle results, and on any other entry that has a \<^verbatim>\<open>messages\<close> sequence, the count is
  the sum of the lengths of the entries' sequences.  (Both shapes name the sequence
  \<^verbatim>\<open>messages\<close> in the code.)
\<close>

theorem countIssuesInResultList_either_shape:
  "countIssuesInResultList (raw :: result list) =
     sum_list (map (\<lambda>r. int (length (messages r))) raw)
   \<and> countIssuesInResultList (normalized :: checkstyle_result list) =
     sum_list (map (\<lambda>r. int (length (messages r))) normalized)
   \<and> countIssuesInResultList (entries :: ('m, 'z) has_messages_scheme list) =
     sum_list (map (\<lambda>r. int (length (messages r))) entries)"
  by (simp add: count_sum_list)

section \<open>Properties of the result-list adapter\<close>

lemma resultList_map_filter:
  "stylelintToCheckstyleResultListAdapter rs =
     map stylelineToCheckstyleResultAdapter (filter (\<lambda>r. messages r \<noteq> []) rs)"
  by (simp add: stylelintToCheckstyleResultListAdapter_def)

lemma resultList_part_001_map_filter:
  "stylelintToCheckstyleResultListAdapter_part_001 rs =
     map stylelineToCheckstyleResultAdapter_part_001 (filter (\<lambda>r. messages r \<noteq> []) rs)"
  by (simp add: stylelintToCheckstyleResultListAdapter_part_001_def)

lemma filter_plugin_none:
  "\<forall>m \<in> set ms. plugin m \<noteq> ''stylelint'' \<Longrightarrow> filter (\<lambda>m. plugin m = ''stylelint'') ms = []"
  by (induction ms) simp_all

lemma resultAdapter_foreign_only:
  assumes "\<forall>m \<in> set (messages r). plugin m \<noteq> ''stylelint''"
  shows "stylelineToCheckstyleResultAdapter r = \<lparr> messages = [], filename = opts_from r \<rparr>"
    and "stylelineToCheckstyleResultAdapter_part_001 r = \<lparr> messages = [], filename = opts_from r \<rparr>"
  using assms
  by (simp_all add: stylelineToCheckstyleResultAdapter_def
      stylelineToCheckstyleResultAdapter_part_001_def
      stylelintToCheckstyleMessageListAdapter_def
      stylelintToCheckstyleMessageListAdapter_part_001_def filter_plugin_none)

text \<open>
  Claim C1.  The result-list adapter (in both source files) filters on the messages as
  Stylelint gave them, not on the adapted ones.  A result \<open>r\<close> with at least one message and
  with no message of plugin \<^verbatim>\<open>stylelint\<close> is kept: wherever it stands in the list, the
  output has at its place the entry with filename \<^verbatim>\<open>r.opts.from\<close> and no messages.  The
  output has as many entries as there are results with a non-empty message list.
\<close>

theorem stylelintToCheckstyleResultListAdapter_filters_raw:
  assumes "messages r \<noteq> []"
    and "\<forall>m \<in> set (messages r). plugin m \<noteq> ''stylelint''"
  shows "stylelintToCheckstyleResultListAdapter (xs @ r # ys) =
           stylelintToCheckstyleResultListAdapter xs
           @ \<lparr> messages = [], filename = opts_from r \<rparr>
           # stylelintToCheckstyleResultListAdapter ys
         \<and> stylelintToCheckstyleResultListAdapter_part_001 (xs @ r # ys) =
           stylelintToCheckstyleResultListAdapter_part_001 xs
           @ \<lparr> messages = [], filename = opts_from r \<rparr>
           # stylelintToCheckstyleResultListAdapter_part_001 ys
         \<and> length (stylelintToCheckstyleResultListAdapter rs) =
           length (filter (\<lambda>r. messages r \<noteq> []) rs)
         \<and> length (stylelintToCheckstyleResultListAdapter_part_001 rs) =
           length (filter (\<lambda>r. messages r \<noteq> []) rs)"
proof (intro conjI)
  show "stylelintToCheckstyleResultListAdapter (xs @ r # ys) =
           stylelintToCheckstyleResultListAdapter xs
           @ \<lparr> messages = [], filename = opts_from r \<rparr>
           # stylelintToCheckstyleResultListAdapter ys"
    using assms(1) resultAdapter_foreign_only(1) [OF assms(2)]
    by (simp add: resultList_map_filter)
  show "stylelintToCheckstyleResultListAdapter_part_001 (xs @ r # ys) =
           stylelintToCheckstyleResultListAdapter_part_001 xs
           @ \<lparr> messages = [], filename = opts_from r \<rparr>
           # stylelintToCheckstyleResultListAdapter_part_001 ys"
    using assms(1) resultAdapter_foreign_only(2) [OF assms(2)]
    by (simp add: resultList_part_001_map_filter)
  show "length (stylelintToCheckstyleResultListAdapter rs) =
           length (filter (\<lambda>r. messages r \<noteq> []) rs)"
    by (simp add: resultList_map_filter)
  show "length (stylelintToCheckstyleResultListAdapter_part_001 rs) =
           length (filter (\<lambda>r. messages r \<noteq> []) rs)"
    by (simp add: resultList_part_001_map_filter)
qed

text \<open>C1 at a list of a clean result, a result with one foreign message and a result with
  one Stylelint warning.\<close>

theorem stylelintToCheckstyleResultListAdapter_filters_raw_witness:
  "map plugin (messages ex_foreign_only) = [''postcss-bem-linter'']
   \<and> stylelintToCheckstyleResultListAdapter [ex_clean, ex_foreign_only, ex_result] =
       [\<lparr> messages = [], filename = ''c.css'' \<rparr>,
        \<lparr> messages = [\<lparr> line = 3, column = 14, severity = Prim (JStr ''warning''),
                         message = ''Expected indentation of 2 spaces'' \<rparr>],
           filename = ''a.css'' \<rparr>]
   \<and> stylelintToCheckstyleResultListAdapter_part_001 [ex_clean, ex_foreign_only, ex_result] =
       [\<lparr> messages = [], filename = ''c.css'' \<rparr>,
        \<lparr> messages = [\<lparr> line = 3, column = 14, severity = Prim JUndefined,
                         message = ''Expected indentation of 2 spaces'' \<rparr>],
           filename = ''a.css'' \<rparr>]"
proof -
  have h1: "messages ex_foreign_only \<noteq> []"
    by (simp add: ex_foreign_only_def)
  have h2: "\<forall>m \<in> set (messages ex_foreign_only). plugin m \<noteq> ''stylelint''"
    by (simp add: ex_foreign_only_def ex_foreign_def)
  have f: "opts_from ex_foreign_only = ''c.css''"
    by (simp add: ex_foreign_only_def)
  have a: "stylelintToCheckstyleResultListAdapter [ex_clean] = []"
    by (simp add: stylelintToCheckstyleResultListAdapter_def ex_clean_def)
  have b: "stylelintToCheckstyleResultListAdapter [ex_result] =
       [\<lparr> messages = [\<lparr> line = 3, column = 14, severity = Prim (JStr ''warning''),
                         message = ''Expected indentation of 2 spaces'' \<rparr>],
           filename = ''a.css'' \<rparr>]"
    by (simp add: stylelintToCheckstyleResultListAdapter_def stylelineToCheckstyleResultAdapter_def
        stylelintToCheckstyleMessageListAdapter_def stylelintToCheckstyleMessageAdapter_def
        ex_result_def ex_warning_def)
  have a': "stylelintToCheckstyleResultListAdapter_part_001 [ex_clean] = []"
    by (simp add: stylelintToCheckstyleResultListAdapter_part_001_def ex_clean_def)
  have b': "stylelintToCheckstyleResultListAdapter_part_001 [ex_result] =
       [\<lparr> messages = [\<lparr> line = 3, column = 14, severity = Prim JUndefined,
                         message = ''Expected indentation of 2 spaces'' \<rparr>],
           filename = ''a.css'' \<rparr>]"
    by (simp add: stylelintToCheckstyleResultListAdapter_part_001_def
        stylelineToCheckstyleResultAdapter_part_001_def
        stylelintToCheckstyleMessageListAdapter_part_001_def
        stylelintToCheckstyleMessageAdapter_part_001_def
        severityTypeMapping_def severityTypeMapping_own_def toPropertyKey_def
        objectPrototypeMembers_def ex_result_def ex_warning_def)
  have h3: "map plugin (messages ex_foreign_only) = [''postcss-bem-linter'']"
    by (simp add: ex_foreign_only_def ex_foreign_def)
  from stylelintToCheckstyleResultListAdapter_filters_raw
         [OF h1 h2, of "[ex_clean]" "[ex_result]" "[]"]
  show ?thesis by (simp add: h3 f a b a' b')
qed

section \<open>Properties of the message-list adapter\<close>

lemma count_list_filter:
  "count_list (filter P xs) x = (if P x then count_list xs x else 0)"
  by (induction xs) auto

text \<open>
  Claim C4.  For every message list, the message-list adapter outputs the messages of
  plugin \<^verbatim>\<open>stylelint\<close> and no others, in the order of the input: the kept messages are a
  subsequence of the input in which every message of plugin \<^verbatim>\<open>stylelint\<close> occurs as often
  as in the input and no other message occurs; the output has one entry for each of them,
  at the same position, with the line, the column and the severity of the message and
  its text under \<^verbatim>\<open>message\<close>.  (The output record has no field for the plugin.)
\<close>

theorem stylelintToCheckstyleMessageListAdapter_subsequence:
  "(let kept = filter (\<lambda>m. plugin m = ''stylelint'') ms;
        out = stylelintToCheckstyleMessageListAdapter ms
    in subseq kept ms
       \<and> (\<forall>m. count_list kept m = (if plugin m = ''stylelint'' then count_list ms m else 0))
       \<and> length out = length kept
       \<and> (\<forall>i < length kept.
             out ! i = \<lparr> line = message.line (kept ! i),
                          column = message.column (kept ! i),
                          severity = Prim (message.severity (kept ! i)),
                          message = text (kept ! i) \<rparr>))"
  unfolding Let_def
proof (intro conjI allI impI)
  show "subseq (filter (\<lambda>m. plugin m = ''stylelint'') ms) ms"
    by (rule subseq_filter_left)
next
  fix m
  show "count_list (filter (\<lambda>m. plugin m = ''stylelint'') ms) m =
        (if plugin m = ''stylelint'' then count_list ms m else 0)"
    by (rule count_list_filter)
next
  show "length (stylelintToCheckstyleMessageListAdapter ms) =
        length (filter (\<lambda>m. plugin m = ''stylelint'') ms)"
    by (simp add: stylelintToCheckstyleMessageListAdapter_def)
next
  fix i
  assume "i < length (filter (\<lambda>m. plugin m = ''stylelint'') ms)"
  then show "stylelintToCheckstyleMessageListAdapter ms ! i =
      \<lparr> line = message.line (filter (\<lambda>m. plugin m = ''stylelint'') ms ! i),
        column = message.column (filter (\<lambda>m. plugin m = ''stylelint'') ms ! i),
        severity = Prim (message.severity (filter (\<lambda>m. plugin m = ''stylelint'') ms ! i)),
        message = text (filter (\<lambda>m. plugin m = ''stylelint'') ms ! i) \<rparr>"
    by (simp add: stylelintToCheckstyleMessageListAdapter_def stylelintToCheckstyleMessageAdapter_def)
qed

lemma ex_kept:
  "filter (\<lambda>m. plugin m = ''stylelint'') [ex_foreign, ex_error, ex_warning] = [ex_error, ex_warning]"
  by (simp add: ex_foreign_def ex_error_def ex_warning_def)

text \<open>C4 at a list of a foreign message, a Stylelint error and a Stylelint warning.\<close>

theorem stylelintToCheckstyleMessageListAdapter_subsequence_witness:
  "(1::nat) < length (filter (\<lambda>m. plugin m = ''stylelint'') [ex_foreign, ex_error, ex_warning])
   \<and> length (stylelintToCheckstyleMessageListAdapter [ex_foreign, ex_error, ex_warning]) = 2
   \<and> stylelintToCheckstyleMessageListAdapter [ex_foreign, ex_error, ex_warning] ! 0 =
       \<lparr> line = 7, column = 1, severity = Prim (JStr ''error''),
         message = ''Unexpected empty block'' \<rparr>
   \<and> stylelintToCheckstyleMessageListAdapter [ex_foreign, ex_error, ex_warning] ! 1 =
       \<lparr> line = 3, column = 14, severity = Prim (JStr ''warning''),
         message = ''Expected indentation of 2 spaces'' \<rparr>"
proof -
  let ?ms = "[ex_foreign, ex_error, ex_warning]"
  have l: "length (filter (\<lambda>m. plugin m = ''stylelint'') ?ms) = 2"
    unfolding ex_kept by simp
  from stylelintToCheckstyleMessageListAdapter_subsequence [of ?ms]
  have n: "length (stylelintToCheckstyleMessageListAdapter ?ms) = 2"
    and p: "\<forall>i < 2. stylelintToCheckstyleMessageListAdapter ?ms ! i =
             \<lparr> line = message.line ([ex_error, ex_warning] ! i),
               column = message.column ([ex_error, ex_warning] ! i),
               severity = Prim (message.severity ([ex_error, ex_warning] ! i)),
               message = text ([ex_error, ex_warning] ! i) \<rparr>"
    unfolding Let_def ex_kept by simp_all
  from p have "stylelintToCheckstyleMessageListAdapter ?ms ! 0 =
       \<lparr> line = 7, column = 1, severity = Prim (JStr ''error''),
         message = ''Unexpected empty block'' \<rparr>"
    by (simp add: ex_error_def)
  moreover from p have "stylelintToCheckstyleMessageListAdapter ?ms ! 1 =
       \<lparr> line = 3, column = 14, severity = Prim (JStr ''warning''),
         message = ''Expected indentation of 2 spaces'' \<rparr>"
    by (simp add: ex_warning_def)
  ultimately show ?thesis using l n by simp
qed

section \<open>The two message adapters compared\<close>

lemma severityTypeMapping_codes:
  "severityTypeMapping (JNum 1) = Prim (JStr ''warning'')"
  "severityTypeMapping (JNum 2) = Prim (JStr ''error'')"
  by (simp_all add: severityTypeMapping_def severityTypeMapping_own_def toPropertyKey_def
      show_int_def show_nat.simps digit_char_def)

lemma severityTypeMapping_tags:
  "severityTypeMapping (JStr ''warning'') = Prim JUndefined"
  "severityTypeMapping (JStr ''error'') = Prim JUndefined"
  by (simp_all add: severityTypeMapping_def severityTypeMapping_own_def toPropertyKey_def
      objectPrototypeMembers_def)

text \<open>
  Claim C2 says that on a message whose severity is the tag \<^verbatim>\<open>'warning'\<close> or \<^verbatim>\<open>'error'\<close> the
  table lookup changes nothing, so that the two message adapters agree.  The table of the
  code has the keys 1 and 2, not the tags: the claim fails at a Stylelint warning.
\<close>

theorem severity_lookup_not_identity_counterexample:
  "\<not> (\<forall>m. message.severity m = JStr ''warning'' \<or> message.severity m = JStr ''error'' \<longrightarrow>
         stylelintToCheckstyleMessageAdapter_part_001 m = stylelintToCheckstyleMessageAdapter m)"
proof
  assume "\<forall>m. message.severity m = JStr ''warning'' \<or> message.severity m = JStr ''error'' \<longrightarrow>
         stylelintToCheckstyleMessageAdapter_part_001 m = stylelintToCheckstyleMessageAdapter m"
  moreover have "message.severity ex_warning = JStr ''warning''"
    by (simp add: ex_warning_def)
  ultimately have "stylelintToCheckstyleMessageAdapter_part_001 ex_warning =
      stylelintToCheckstyleMessageAdapter ex_warning"
    by blast
  then have "severity (stylelintToCheckstyleMessageAdapter_part_001 ex_warning) =
      severity (stylelintToCheckstyleMessageAdapter ex_warning)"
    by simp
  then show False
    by (simp add: stylelintToCheckstyleMessageAdapter_part_001_def
        stylelintToCheckstyleMessageAdapter_def ex_warning_def severityTypeMapping_tags)
qed

text \<open>
  Claim C2, amended.  For every message the two message adapters agree on line, column
  and message, and the adapter of \<^verbatim>\<open>src/index.js\<close> passes the severity through.  The adapter
  with the table maps the numeric severity 1 to \<^verbatim>\<open>'warning'\<close> and 2 to \<^verbatim>\<open>'error'\<close>; on a
  message whose severity is the tag \<^verbatim>\<open>'warning'\<close> or \<^verbatim>\<open>'error'\<close> its severity is
  \<^verbatim>\<open>undefined\<close>, and the two adapted messages differ.
\<close>

theorem severity_adapters_compared:
  "line (stylelintToCheckstyleMessageAdapter_part_001 m) = line (stylelintToCheckstyleMessageAdapter m)
   \<and> column (stylelintToCheckstyleMessageAdapter_part_001 m) =
       column (stylelintToCheckstyleMessageAdapter m)
   \<and> message (stylelintToCheckstyleMessageAdapter_part_001 m) =
       message (stylelintToCheckstyleMessageAdapter m)
   \<and> severity (stylelintToCheckstyleMessageAdapter m) = Prim (message.severity m)
   \<and> (message.severity m = JNum 1 \<longrightarrow>
        severity (stylelintToCheckstyleMessageAdapter_part_001 m) = Prim (JStr ''warning''))
   \<and> (message.severity m = JNum 2 \<longrightarrow>
        severity (stylelintToCheckstyleMessageAdapter_part_001 m) = Prim (JStr ''error''))
   \<and> (message.severity m = JStr ''warning'' \<or> message.severity m = JStr ''error'' \<longrightarrow>
        severity (stylelintToCheckstyleMessageAdapter_part_001 m) = Prim JUndefined
        \<and> stylelintToCheckstyleMessageAdapter_part_001 m \<noteq> stylelintToCheckstyleMessageAdapter m)"
proof (intro conjI impI)
  assume "message.severity m = JStr ''warning'' \<or> message.severity m = JStr ''error''"
  then have u: "severity (stylelintToCheckstyleMessageAdapter_part_001 m) = Prim JUndefined"
    by (auto simp: stylelintToCheckstyleMessageAdapter_part_001_def severityTypeMapping_tags)
  show "severity (stylelintToCheckstyleMessageAdapter_part_001 m) = Prim JUndefined"
    by (rule u)
  have "severity (stylelintToCheckstyleMessageAdapter m) \<noteq> Prim JUndefined"
    using \<open>message.severity m = JStr ''warning'' \<or> message.severity m = JStr ''error''\<close>
    by (auto simp: stylelintToCheckstyleMessageAdapter_def)
  with u show "stylelintToCheckstyleMessageAdapter_part_001 m \<noteq> stylelintToCheckstyleMessageAdapter m"
    by auto
qed (simp_all add: stylelintToCheckstyleMessageAdapter_part_001_def
      stylelintToCheckstyleMessageAdapter_def severityTypeMapping_codes)

text \<open>The amended C2 at the severities 1, 2 and \<^verbatim>\<open>'error'\<close>.\<close>

theorem severity_adapters_compared_witness:
  "message.severity (ex_warning\<lparr>message.severity := JNum 1\<rparr>) = JNum 1
   \<and> severity (stylelintToCheckstyleMessageAdapter_part_001 (ex_warning\<lparr>message.severity := JNum 1\<rparr>))
       = Prim (JStr ''warning'')
   \<and> message.severity (ex_error\<lparr>message.severity := JNum 2\<rparr>) = JNum 2
   \<and> severity (stylelintToCheckstyleMessageAdapter_part_001 (ex_error\<lparr>message.severity := JNum 2\<rparr>))
       = Prim (JStr ''error'')
   \<and> message.severity ex_error = JStr ''error''
   \<and> severity (stylelintToCheckstyleMessageAdapter_part_001 ex_error) = Prim JUndefined
   \<and> severity (stylelintToCheckstyleMessageAdapter ex_error) = Prim (JStr ''error'')"
  using severity_adapters_compared [of "ex_warning\<lparr>message.severity := JNum 1\<rparr>"]
    severity_adapters_compared [of "ex_error\<lparr>message.severity := JNum 2\<rparr>"]
    severity_adapters_compared [of ex_error]
  by (simp add: ex_error_def)

section \<open>Properties of the console reporter\<close>

lemma consoleMessageReporter_prefix: "prefix con (consoleMessageReporter c m con)"
  by (simp add: consoleMessageReporter_def Let_def)

lemma foldl_message_prefix:
  "prefix con (foldl (\<lambda>con' m. consoleMessageReporter c m con') con ms)"
proof (induction ms arbitrary: con)
  case Nil
  show ?case by simp
next
  case (Cons m ms)
  have "prefix con (consoleMessageReporter c m con)"
    by (rule consoleMessageReporter_prefix)
  also have "prefix (consoleMessageReporter c m con)
      (foldl (\<lambda>con' m. consoleMessageReporter c m con') (consoleMessageReporter c m con) ms)"
    by (rule Cons.IH)
  finally show ?case by simp
qed

lemma consoleResultReporter_prefix: "prefix con (consoleResultReporter c r con)"
proof -
  have "prefix con (con @ [underline c (opts_from r)])" by simp
  also have "prefix (con @ [underline c (opts_from r)]) (consoleResultReporter c r con)"
    unfolding consoleResultReporter_def by (rule foldl_message_prefix)
  finally show ?thesis .
qed

lemma foldl_result_prefix:
  "prefix con (foldl (\<lambda>con' r. consoleResultReporter c r con') con rs)"
proof (induction rs arbitrary: con)
  case Nil
  show ?case by simp
next
  case (Cons r rs)
  have "prefix con (consoleResultReporter c r con)"
    by (rule consoleResultReporter_prefix)
  also have "prefix (consoleResultReporter c r con)
      (foldl (\<lambda>con' r. consoleResultReporter c r con') (consoleResultReporter c r con) rs)"
    by (rule Cons.IH)
  finally show ?case by simp
qed

text \<open>
  Claim C9.  For every result list the console reporter returns the list it was given.
  It has no failing branch: it is a total function whose only effect is to add lines at
  the end of the console.  On the empty list it returns the empty list and prints nothing.
\<close>

theorem consoleResultListReporter_transparent:
  "fst (consoleResultListReporter c rs con) = rs
   \<and> prefix con (snd (consoleResultListReporter c rs con))
   \<and> consoleResultListReporter c [] con = ([], con)"
  by (simp add: consoleResultListReporter_def foldl_result_prefix)

section \<open>Properties of the file handler\<close>

lemma isStream_not_isNull: "isStream f \<Longrightarrow> \<not> isNull f"
  by (simp add: isStream_def isNull_def)

lemma onFile_isStream:
  "isStream f \<Longrightarrow>
   onFile st f = (st, Fail (PluginError pluginName (Message ''Streaming not supported'')))"
  by (simp add: onFile_def isStream_not_isNull)

lemma onFiles_Cons:
  "onFiles st (f # fs) =
     (fst (onFiles (fst (onFile st f)) fs),
      snd (onFile st f) # snd (onFiles (fst (onFile st f)) fs))"
  by (simp split: prod.splits)

lemma onFiles_append:
  "onFiles st (a @ b) =
     (fst (onFiles (fst (onFiles st a)) b), snd (onFiles st a) @ snd (onFiles (fst (onFiles st a)) b))"
proof (induction a arbitrary: st)
  case Nil
  show ?case by simp
next
  case (Cons f a)
  show ?case
    by (simp only: append_Cons onFiles_Cons Cons.IH fst_conv snd_conv)
qed

lemma length_onFiles: "length (snd (onFiles st fs)) = length fs"
proof (induction fs arbitrary: st)
  case Nil
  show ?case by simp
next
  case (Cons f fs)
  show ?case
    by (simp only: onFiles_Cons snd_conv list.size Cons.IH)
qed

text \<open>
  Claim C7.  For a file whose contents are a stream, \<^verbatim>\<open>onFile\<close> calls \<^verbatim>\<open>done\<close> with the
  plugin error \<^verbatim>\<open>Streaming not supported\<close> (the error channel of the stream), adds no
  promise to the list, and does not pass the file on.  The other files of the run are not
  affected: with the streaming file anywhere among them, the closure ends in the state it
  would have without it, and every other file gets the answer it would get without it.
  (Whether the host pipeline goes on delivering files after an error is its own matter.)
\<close>

theorem onFile_streaming_not_supported:
  assumes "isStream f"
  shows "onFile st f =
           (st, Fail (PluginError ''gulp-stylelint-checkstyle'' (Message ''Streaming not supported'')))
         \<and> promiseList (fst (onFile st f)) = promiseList st
         \<and> (\<forall>g. snd (onFile st f) \<noteq> Pass g)
         \<and> fst (onFiles st (before @ f # after)) = fst (onFiles st (before @ after))
         \<and> (\<exists>ds ds'. length ds = length before
              \<and> snd (onFiles st (before @ after)) = ds @ ds'
              \<and> snd (onFiles st (before @ f # after)) = ds @ snd (onFile st f) # ds')"
proof -
  have one: "onFile st' f =
      (st', Fail (PluginError ''gulp-stylelint-checkstyle'' (Message ''Streaming not supported'')))"
    for st'
    using onFile_isStream [OF assms] by (simp add: pluginName_def)
  have cons: "onFiles st' (f # after) = (fst (onFiles st' after), snd (onFile st' f) # snd (onFiles st' after))"
    for st'
    by (simp only: onFiles_Cons one fst_conv snd_conv)
  let ?mid = "fst (onFiles st before)"
  have state: "fst (onFiles st (before @ f # after)) = fst (onFiles st (before @ after))"
    by (simp only: onFiles_append [of st before] cons fst_conv)
  have calls: "length (snd (onFiles st before)) = length before
      \<and> snd (onFiles st (before @ after)) = snd (onFiles st before) @ snd (onFiles ?mid after)
      \<and> snd (onFiles st (before @ f # after)) =
          snd (onFiles st before) @ snd (onFile st f) # snd (onFiles ?mid after)"
    by (simp only: onFiles_append [of st before] cons length_onFiles one snd_conv simp_thms)
  from calls have "\<exists>ds ds'. length ds = length before
              \<and> snd (onFiles st (before @ after)) = ds @ ds'
              \<and> snd (onFiles st (before @ f # after)) = ds @ snd (onFile st f) # ds'"
    by blast
  with state show ?thesis by (simp add: one)
qed

text \<open>C7 at a streaming file between two buffered ones.\<close>

theorem onFile_streaming_not_supported_witness:
  "isStream ex_streaming
   \<and> onFile ex_state ex_streaming =
       (ex_state, Fail (PluginError ''gulp-stylelint-checkstyle'' (Message ''Streaming not supported'')))
   \<and> fst (onFiles ex_state [ex_buffer, ex_streaming, ex_buffer]) =
       fst (onFiles ex_state [ex_buffer, ex_buffer])
   \<and> length (promiseList (fst (onFiles ex_state [ex_buffer, ex_streaming, ex_buffer]))) = 3"
proof -
  have s: "isStream ex_streaming"
    by (simp add: isStream_def ex_streaming_def)
  have b: "\<not> isNull ex_buffer" "\<not> isStream ex_buffer"
    by (simp_all add: isNull_def isStream_def ex_buffer_def)
  have n: "length (promiseList (fst (onFiles ex_state [ex_buffer, ex_buffer]))) = 3"
    by (simp add: onFile_def b Let_def ex_state_def)
  from onFile_streaming_not_supported [OF s, of ex_state "[ex_buffer]" "[ex_buffer]"] s n
  show ?thesis by simp
qed

section \<open>Properties of the construction\<close>

lemma falsy_cases:
  "(\<not> truthy v) =
     (v = JStr [] \<or> v = JUndefined \<or> v = JNull \<or> v = JBool False \<or> v = JNum 0)"
  by (cases v) auto

lemma outputFile_onFile: "outputFile (fst (onFile st f)) = outputFile st"
  by (simp add: onFile_def Let_def)

lemma outputDir_onFile: "outputDir (fst (onFile st f)) = outputDir st"
  by (simp add: onFile_def Let_def)

lemma outputFile_onFiles: "outputFile (fst (onFiles st fs)) = outputFile st"
proof (induction fs arbitrary: st)
  case Nil
  show ?case by simp
next
  case (Cons f fs)
  show ?case
    by (simp only: onFiles_Cons fst_conv Cons.IH outputFile_onFile)
qed

lemma outputDir_onFiles: "outputDir (fst (onFiles st fs)) = outputDir st"
proof (induction fs arbitrary: st)
  case Nil
  show ?case by simp
next
  case (Cons f fs)
  show ?case
    by (simp only: onFiles_Cons fst_conv Cons.IH outputDir_onFile)
qed

lemma outputWriter_cwd: "outputWriter (e\<lparr>cwd := d\<rparr>) st x w = outputWriter e st x w"
  by (simp add: outputWriter_def Let_def split: option.splits)

lemma chain_cwd:
  "checkstyleReporter_chain (e\<lparr>cwd := d\<rparr>) st rs w = checkstyleReporter_chain e st rs w"
  by (simp add: checkstyleReporter_chain_def outputWriter_cwd)

lemma call_reporter_cwd: "call_reporter (e\<lparr>cwd := d\<rparr>) r rs w = call_reporter e r rs w"
  by (cases r) simp_all

lemma map_reporters_cwd: "map_reporters (e\<lparr>cwd := d\<rparr>) reps rs w = map_reporters e reps rs w"
  by (induction reps arbitrary: w)
    (simp_all add: call_reporter_cwd split: prod.splits sum.splits)

lemma await_all_cwd: "await_all (e\<lparr>cwd := d\<rparr>) st vs w = await_all e st vs w"
proof (induction vs arbitrary: w)
  case Nil
  show ?case by simp
next
  case (Cons v vs)
  show ?case
    by (cases v) (simp_all add: Cons.IH chain_cwd split: prod.splits option.splits)
qed

lemma onStreamEnd_cwd: "onStreamEnd (e\<lparr>cwd := d\<rparr>) opts st w = onStreamEnd e opts st w"
  by (simp add: onStreamEnd_def provideResultsToReporters_def map_reporters_cwd await_all_cwd
      split: prod.splits sum.splits option.splits)

text \<open>
  Claim C10.  An \<^verbatim>\<open>output\<close> option that is the empty string, or any other falsy value
  (\<^verbatim>\<open>undefined\<close>, \<^verbatim>\<open>null\<close>, \<^verbatim>\<open>false\<close>, \<^verbatim>\<open>0\<close>), is treated as an absent one: the construction gives what it gives for \<^verbatim>\<open>undefined\<close>.  The
  report path is then \<^verbatim>\<open>checkstyle.xml\<close> resolved against the working directory (and the
  construction throws what \<^verbatim>\<open>path.resolve\<close> throws, if it does).  The path is fixed at
  the construction: no file that comes through changes it, and the end of the stream
  does not read the working directory again.
\<close>

theorem gulpStylelintCheckstyle_falsy_output:
  assumes "output opts = JStr [] \<or> output opts = JUndefined \<or> output opts = JNull
      \<or> output opts = JBool False \<or> output opts = JNum 0"
  shows "gulpStylelintCheckstyle e opts = gulpStylelintCheckstyle e (opts\<lparr>output := JUndefined\<rparr>)
         \<and> (\<forall>file. path_resolve e (cwd e) (JStr ''checkstyle.xml'') = Inr file \<longrightarrow>
              (\<exists>st. gulpStylelintCheckstyle e opts = Inr st
                 \<and> outputFile st = file
                 \<and> outputDir st = path_dirname e file
                 \<and> (\<forall>fs. outputFile (fst (onFiles st fs)) = file
                        \<and> outputDir (fst (onFiles st fs)) = path_dirname e file)
                 \<and> (\<forall>d fs w. onStreamEnd (e\<lparr>cwd := d\<rparr>) opts (fst (onFiles st fs)) w =
                       onStreamEnd e opts (fst (onFiles st fs)) w)))
         \<and> (\<forall>err. path_resolve e (cwd e) (JStr ''checkstyle.xml'') = Inl err \<longrightarrow>
              gulpStylelintCheckstyle e opts = Inl err)"
proof -
  let ?dflt = "path_resolve e (cwd e) (JStr ''checkstyle.xml'')"
  let ?mk = "\<lambda>file. \<lparr> promiseList = [], outputFile = file, outputDir = path_dirname e file,
                      postcssProcessor = postcss_stylelint e (stylelint opts) \<rparr>"
  from assms have f: "\<not> truthy (output opts)" by (simp add: falsy_cases)
  then have g: "gulpStylelintCheckstyle e opts =
      (case ?dflt of Inl err \<Rightarrow> Inl err | Inr file \<Rightarrow> Inr (?mk file))"
    by (simp add: gulpStylelintCheckstyle_def js_or_def)
  have g': "gulpStylelintCheckstyle e (opts\<lparr>output := JUndefined\<rparr>) =
      (case ?dflt of Inl err \<Rightarrow> Inl err | Inr file \<Rightarrow> Inr (?mk file))"
    by (simp add: gulpStylelintCheckstyle_def js_or_def split: sum.splits)
  have same: "gulpStylelintCheckstyle e opts = gulpStylelintCheckstyle e (opts\<lparr>output := JUndefined\<rparr>)"
    by (simp only: g g')
  have ok: "\<exists>st. gulpStylelintCheckstyle e opts = Inr st
                 \<and> outputFile st = fl
                 \<and> outputDir st = path_dirname e fl
                 \<and> (\<forall>fs. outputFile (fst (onFiles st fs)) = fl
                        \<and> outputDir (fst (onFiles st fs)) = path_dirname e fl)
                 \<and> (\<forall>d fs w. onStreamEnd (e\<lparr>cwd := d\<rparr>) opts (fst (onFiles st fs)) w =
                       onStreamEnd e opts (fst (onFiles st fs)) w)"
    if r: "?dflt = Inr fl" for fl
  proof (intro exI conjI allI)
    show "gulpStylelintCheckstyle e opts = Inr (?mk fl)"
      by (simp add: g r)
  qed (simp_all add: outputFile_onFiles outputDir_onFiles onStreamEnd_cwd)
  have bad: "gulpStylelintCheckstyle e opts = Inl err" if "?dflt = Inl err" for err
    using that by (simp add: g)
  from same ok bad show ?thesis by blast
qed

text \<open>C10 at the empty string.\<close>

theorem gulpStylelintCheckstyle_falsy_output_witness:
  "output (ex_options\<lparr>output := JStr []\<rparr>) = JStr []
   \<and> path_resolve ex_env (cwd ex_env) (JStr ''checkstyle.xml'') = Inr ''/work/checkstyle.xml''
   \<and> (\<exists>st. gulpStylelintCheckstyle ex_env (ex_options\<lparr>output := JStr []\<rparr>) = Inr st
         \<and> outputFile st = ''/work/checkstyle.xml'')
   \<and> gulpStylelintCheckstyle ex_env (ex_options\<lparr>output := JStr []\<rparr>) =
       gulpStylelintCheckstyle ex_env (ex_options\<lparr>output := JStr [], output := JUndefined\<rparr>)"
proof -
  let ?o = "output (ex_options\<lparr>output := JStr []\<rparr>)"
  have h: "?o = JStr [] \<or> ?o = JUndefined \<or> ?o = JNull \<or> ?o = JBool False \<or> ?o = JNum 0"
    by simp
  have r: "path_resolve ex_env (cwd ex_env) (JStr ''checkstyle.xml'') = Inr ''/work/checkstyle.xml''"
    by (simp add: ex_env_def ex_resolve_def)
  from gulpStylelintCheckstyle_falsy_output [OF h, of ex_env]
  have same: "gulpStylelintCheckstyle ex_env (ex_options\<lparr>output := JStr []\<rparr>) =
      gulpStylelintCheckstyle ex_env (ex_options\<lparr>output := JStr [], output := JUndefined\<rparr>)"
    and ok: "\<forall>file. path_resolve ex_env (cwd ex_env) (JStr ''checkstyle.xml'') = Inr file \<longrightarrow>
      (\<exists>st. gulpStylelintCheckstyle ex_env (ex_options\<lparr>output := JStr []\<rparr>) = Inr st
         \<and> outputFile st = file)"
    by blast+
  from ok r have "\<exists>st. gulpStylelintCheckstyle ex_env (ex_options\<lparr>output := JStr []\<rparr>) = Inr st
         \<and> outputFile st = ''/work/checkstyle.xml''"
    by blast
  with same r show ?thesis by simp
qed

section \<open>The reporters at the end of the stream\<close>

text \<open>
  Claim C6 says that with \<^verbatim>\<open>reportToConsole\<close> and \<^verbatim>\<open>failAfterAllErrors\<close> both enabled all the
  selected reporters are called on the same results and all are awaited, and that the
  report is written even when the fail-after-all-errors reporter fails.  At one result
  with one Stylelint warning the three reporters are called on the same results: the
  chain of the Checkstyle reporter is started and the console reporter prints.  But the
  third reporter throws inside \<^verbatim>\<open>reporters.map\<close>, so \<^verbatim>\<open>Promise.all\<close> is never reached:
  \<^verbatim>\<open>onStreamEnd\<close> emits the error and calls \<^verbatim>\<open>done()\<close> while the chain is still pending, and
  the report is written only afterwards, with nothing waiting for it.  Without
  \<^verbatim>\<open>failAfterAllErrors\<close> the same run writes the report before it calls \<^verbatim>\<open>done()\<close>.
\<close>

theorem provideResultsToReporters_throws_before_await:
  "provideResultsToReporters ex_env ex_options [ex_result] ex_world =
     (Inl (Error ''1 linting issue has been found.''),
      \<lparr> console = [''a.css'', ''3:14 warning Expected indentation of 2 spaces''],
        trace = [],
        pending = [[ex_result]] \<rparr>)
   \<and> onStreamEnd ex_env ex_options ex_state ex_world =
     \<lparr> console = [''a.css'', ''3:14 warning Expected indentation of 2 spaces''],
       trace = [Emit (PluginError ''gulp-stylelint-checkstyle''
                  (Caught (Error ''1 linting issue has been found.''))),
                Done],
       pending = [[ex_result]] \<rparr>
   \<and> trace (event_loop_rest ex_env ex_state (onStreamEnd ex_env ex_options ex_state ex_world)) =
     [Emit (PluginError ''gulp-stylelint-checkstyle''
        (Caught (Error ''1 linting issue has been found.''))),
      Done,
      Mkdirp ''/work'',
      WriteFile ''/work/checkstyle.xml'' ''<checkstyle/>'']
   \<and> trace (onStreamEnd ex_env (ex_options\<lparr>failAfterAllErrors := JBool False\<rparr>) ex_state ex_world) =
     [Mkdirp ''/work'', WriteFile ''/work/checkstyle.xml'' ''<checkstyle/>'', Done]"
proof -
  have c: "countIssuesInResultList [ex_result] = 1"
    by (simp add: countIssuesInResultList_def ex_result_def)
  have f: "failAfterAllErrorsReporter [ex_result] = Inl (Error ''1 linting issue has been found.'')"
    by (simp add: failAfter_unfold c show_int_1)
  have con: "consoleResultListReporter ex_colors [ex_result] [] =
      ([ex_result], [''a.css'', ''3:14 warning Expected indentation of 2 spaces''])"
    by (simp add: consoleResultListReporter_def consoleResultReporter_def
        consoleMessageReporter_def Let_def ex_result_def ex_warning_def ex_colors_def
        show_int_def show_nat.simps digit_char_def)
  have col: "gulpUtil_colors ex_env = ex_colors"
    by (simp add: ex_env_def)
  have p: "provideResultsToReporters ex_env ex_options [ex_result] ex_world =
     (Inl (Error ''1 linting issue has been found.''),
      \<lparr> console = [''a.css'', ''3:14 warning Expected indentation of 2 spaces''],
        trace = [],
        pending = [[ex_result]] \<rparr>)"
    by (simp add: provideResultsToReporters_def selected_reporters_def ex_options_def
        checkstyleReporter_def ex_world_def col con f)
  have pl: "promise_all (promiseList ex_state) = Inr [ex_result]"
    by (simp add: ex_state_def)
  have e: "onStreamEnd ex_env ex_options ex_state ex_world =
     \<lparr> console = [''a.css'', ''3:14 warning Expected indentation of 2 spaces''],
       trace = [Emit (PluginError ''gulp-stylelint-checkstyle''
                  (Caught (Error ''1 linting issue has been found.''))),
                Done],
       pending = [[ex_result]] \<rparr>"
    by (simp add: onStreamEnd_def pl p on_catch_def log_event_def pluginName_def)
  have w: "outputDir ex_state = ''/work''" "outputFile ex_state = ''/work/checkstyle.xml''"
    "mkdirp ex_env = (\<lambda>d. None)" "writeFile ex_env = (\<lambda>f x. None)"
    "checkstyleFormatter ex_env = (\<lambda>rs. ''<checkstyle/>'')"
    by (simp_all add: ex_state_def ex_env_def)
  have l: "trace (event_loop_rest ex_env ex_state (onStreamEnd ex_env ex_options ex_state ex_world)) =
     [Emit (PluginError ''gulp-stylelint-checkstyle''
        (Caught (Error ''1 linting issue has been found.''))),
      Done,
      Mkdirp ''/work'',
      WriteFile ''/work/checkstyle.xml'' ''<checkstyle/>'']"
    by (simp add: e event_loop_rest_def checkstyleReporter_chain_def outputWriter_def
        log_event_def Let_def w)
  have p': "provideResultsToReporters ex_env (ex_options\<lparr>failAfterAllErrors := JBool False\<rparr>)
      [ex_result] ex_world =
     (Inr [Promise [ex_result], Value],
      \<lparr> console = [''a.css'', ''3:14 warning Expected indentation of 2 spaces''],
        trace = [],
        pending = [[ex_result]] \<rparr>)"
    by (simp add: provideResultsToReporters_def selected_reporters_def ex_options_def
        checkstyleReporter_def ex_world_def col con)
  have s: "trace (onStreamEnd ex_env (ex_options\<lparr>failAfterAllErrors := JBool False\<rparr>) ex_state ex_world) =
     [Mkdirp ''/work'', WriteFile ''/work/checkstyle.xml'' ''<checkstyle/>'', Done]"
    by (simp add: onStreamEnd_def pl p' checkstyleReporter_chain_def outputWriter_def
        log_event_def Let_def w)
  from p e l s show ?thesis by simp
qed

end
